theory Spec2Isabelle
  imports Complex_Main "HOL-Library.Sublist"
begin

section \<open>JavaScript values\<close>

text \<open>
  The server is TypeScript on Node.js. Strings are lists of characters; the letters that
  the code inspects (the dot, the slash and the letters of the pattern) are ASCII, and
  every other character is carried along unchanged.
\<close>

text \<open>
  A JavaScript number: the two infinities, the negative zero and NaN beside the finite
  values.
\<close>

datatype jsnum = NaN | PosInf | NegInf | NegZero | Fin rat

datatype jsval =
    JUndefined
  | JNull
  | JBool bool
  | JNum jsnum
  | JStr string
  | JArr "jsval list"
  | JObj "(string \<times> jsval) list"

text \<open>ToBoolean, as the conditions \<open>if (error)\<close> and \<open>x || y\<close> apply it.\<close>

fun ToBoolean_num :: "jsnum \<Rightarrow> bool" where
  "ToBoolean_num NaN = False"
| "ToBoolean_num NegZero = False"
| "ToBoolean_num (Fin q) = (q \<noteq> 0)"
| "ToBoolean_num PosInf = True"
| "ToBoolean_num NegInf = True"

fun ToBoolean :: "jsval \<Rightarrow> bool" where
  "ToBoolean JUndefined = False"
| "ToBoolean JNull = False"
| "ToBoolean (JBool b) = b"
| "ToBoolean (JNum n) = ToBoolean_num n"
| "ToBoolean (JStr s) = (s \<noteq> [])"
| "ToBoolean (JArr vs) = True"
| "ToBoolean (JObj fs) = True"

text \<open>
  \<open>process.env\<close>: a variable is a string or is not set. \<open>String(x)\<close> and a template
  literal \<open>${x}\<close> both render an unset variable as the nine letters \<open>undefined\<close>.
\<close>

type_synonym env = "string \<Rightarrow> string option"

definition String_env :: "string option \<Rightarrow> string" where
  "String_env v = (case v of None \<Rightarrow> ''undefined'' | Some s \<Rightarrow> s)"

text \<open>Reading a property of a parsed JSON object: a missing property is \<open>undefined\<close>.\<close>

definition get_prop :: "(string \<times> jsval) list \<Rightarrow> string \<Rightarrow> jsval" where
  "get_prop obj k = (case map_of obj k of None \<Rightarrow> JUndefined | Some v \<Rightarrow> v)"

section \<open>Library functions the code calls\<close>

subsection \<open>String.prototype.toLowerCase and substring\<close>

text \<open>
  \<open>toLowerCase\<close> maps the letters A to Z to a to z. No character outside ASCII is
  mapped to a letter of the pattern next to its neighbours, so the other characters stay
  as they are here.
\<close>

definition lower_char :: "char \<Rightarrow> char" where
  "lower_char c =
     (let n = (of_char c :: nat) in if 65 \<le> n \<and> n \<le> 90 then char_of (n + 32) else c)"

definition toLowerCase :: "string \<Rightarrow> string" where
  "toLowerCase s = map lower_char s"

text \<open>
  \<open>s.substring(start, end)\<close>: both indices are clamped to the length of the string and
  swapped when the first is the larger.
\<close>

definition substring :: "nat \<Rightarrow> nat \<Rightarrow> string \<Rightarrow> string" where
  "substring start end s =
     (let a = min start (length s); b = min end (length s);
          lo = min a b; hi = max a b
      in take (hi - lo) (drop lo s))"

subsection \<open>path.extname\<close>

text \<open>
  Node's POSIX \<open>path.extname\<close> scans the path from its last character to its first.
  The local variables of that loop are the fields of \<open>ext_state\<close>; the value \<open>-1\<close> of
  \<open>startDot\<close> and \<open>end\<close> is \<open>None\<close>.
\<close>

record ext_state =
  startDot :: "nat option"
  startPart :: nat
  endPos :: "nat option"
  matchedSlash :: bool
  preDotState :: int

definition ext_init :: ext_state where
  "ext_init =
     \<lparr>startDot = None, startPart = 0, endPos = None, matchedSlash = True, preDotState = 0\<rparr>"

text \<open>One pass of the loop body at index \<open>i\<close>, for a character that is not a slash.\<close>

definition ext_step :: "char \<Rightarrow> nat \<Rightarrow> ext_state \<Rightarrow> ext_state" where
  "ext_step code i st =
     (let st1 = (if endPos st = None
                 then st\<lparr>matchedSlash := False, endPos := Some (i + 1)\<rparr> else st)
      in if code = CHR ''.'' then
           (if startDot st1 = None then st1\<lparr>startDot := Some i\<rparr>
            else if preDotState st1 \<noteq> 1 then st1\<lparr>preDotState := 1\<rparr>
            else st1)
         else if startDot st1 \<noteq> None then st1\<lparr>preDotState := - 1\<rparr>
         else st1)"

text \<open>
  \<open>ext_loop path n st\<close> runs the iterations \<open>i = n - 1\<close> down to \<open>0\<close>. A slash after
  the last component has begun ends the loop (\<open>break\<close>); a trailing slash is skipped
  (\<open>continue\<close>).
\<close>

fun ext_loop :: "string \<Rightarrow> nat \<Rightarrow> ext_state \<Rightarrow> ext_state" where
  "ext_loop path 0 st = st"
| "ext_loop path (Suc i) st =
     (if path ! i = CHR ''/'' then
        (if \<not> matchedSlash st then st\<lparr>startPart := i + 1\<rparr>
         else ext_loop path i st)
      else ext_loop path i (ext_step (path ! i) i st))"

definition extname :: "string \<Rightarrow> string" where
  "extname path =
     (let st = ext_loop path (length path) ext_init in
      case (startDot st, endPos st) of
        (Some d, Some e) \<Rightarrow>
          if preDotState st = 0
             \<or> (preDotState st = 1 \<and> d = e - 1 \<and> d = startPart st + 1)
          then []
          else take (e - d) (drop d path)
      | _ \<Rightarrow> [])"

subsection \<open>The pattern /jpeg|jpg|png|gif/\<close>

text \<open>
  The pattern has no anchors and no flags, so \<open>filetypes.test(s)\<close> holds when one of the
  four words occurs somewhere in \<open>s\<close> as a run of consecutive characters.
\<close>

definition filetypes_test :: "string \<Rightarrow> bool" where
  "filetypes_test s =
     (sublist ''jpeg'' s \<or> sublist ''jpg'' s \<or> sublist ''png'' s \<or> sublist ''gif'' s)"

section \<open>The file filter and the key generator\<close>

text \<open>The fields of \<open>Express.Multer.File\<close> that the code reads, and its \<open>size\<close> in bytes
  (\<open>file_size\<close> here).\<close>

record multer_file =
  originalname :: string
  mimetype :: string
  file_size :: nat

text \<open>
  A call of the filter's callback: \<open>cb(null, true)\<close> or \<open>cb(message)\<close>. The result of
  \<open>checkFileType\<close> is the list of the calls it makes, in order.
\<close>

datatype filter_cb = CbAccept | CbError string

definition checkFileType :: "multer_file \<Rightarrow> filter_cb list" where
  "checkFileType f =
     (let ext = filetypes_test (toLowerCase (extname (originalname f)));
          mime = filetypes_test (mimetype f)
      in if mime \<and> ext then [CbAccept] else [CbError ''Error: Images Only!''])"

text \<open>
  \<open>getRandomFileName\<close> draws twice from \<open>Math.random()\<close>. The arguments \<open>r1\<close> and
  \<open>r2\<close> are the two strings \<open>Math.random().toString(36)\<close>, in the order they are drawn.
\<close>

definition getRandomFileName :: "multer_file \<Rightarrow> string \<Rightarrow> string \<Rightarrow> string" where
  "getRandomFileName f r1 r2 =
     substring 2 15 r1 @ substring 2 15 r2 @ extname (originalname f)"

text \<open>The \<open>key\<close> function given to the storage engine.\<close>

definition storage_key :: "multer_file \<Rightarrow> string \<Rightarrow> string \<Rightarrow> string" where
  "storage_key f r1 r2 = ''saskengallery/'' @ getRandomFileName f r1 r2"

text \<open>
  \<open>Number.prototype.toString(36)\<close> of a number in the interval from 0 (included) to 1
  (excluded) is \<open>0\<close>, or \<open>0.\<close> followed by digits of base 36.
\<close>

definition base36_digit :: "char \<Rightarrow> bool" where
  "base36_digit c =
     (let n = (of_char c :: nat) in (48 \<le> n \<and> n \<le> 57) \<or> (97 \<le> n \<and> n \<le> 122))"

fun base36_fraction :: "string \<Rightarrow> bool" where
  "base36_fraction [z] = (z = CHR ''0'')"
| "base36_fraction (z # d # ds) =
     (z = CHR ''0'' \<and> d = CHR ''.'' \<and> ds \<noteq> [] \<and> list_all base36_digit ds)"
| "base36_fraction [] = False"

section \<open>Object storage\<close>

text \<open>
  The commands sent to the storage service: the upload of a file under a key with an
  access-control setting, and \<open>DeleteObjectCommand\<close> with its \<open>Bucket\<close> and \<open>Key\<close>.
  The service is outside the program: \<open>s3_send\<close> gives, for a command, whether the
  promise resolves (with the service's output) or rejects (with an error).
\<close>

datatype s3_command =
    PutObject string string string multer_file
  | DeleteObject string jsval

datatype s3_result = S3Ok jsval | S3Error jsval

text \<open>
  What a handler does with a request: the response it sends (none when it never
  answers), the storage commands it issues and the lines it writes to the console.
  \<open>res.json\<close> leaves the status at 200 unless \<open>res.status\<close> was called.
\<close>

record response =
  status :: nat
  body :: jsval

record outcome =
  sent :: "response option"
  s3_calls :: "s3_command list"
  console :: "jsval list list"

definition res_json :: "nat \<Rightarrow> (string \<times> jsval) list \<Rightarrow> response" where
  "res_json code props = \<lparr>status = code, body = JObj props\<rparr>"

section \<open>DELETE /delete\<close>

definition delete_handler ::
  "env \<Rightarrow> (s3_command \<Rightarrow> s3_result) \<Rightarrow> (string \<times> jsval) list \<Rightarrow> outcome" where
  "delete_handler env s3_send req_body =
     (let key = get_prop req_body ''key'';
          params = DeleteObject (String_env (env ''AWS_BUCKET_NAME'')) key
      in case s3_send params of
           S3Ok ress \<Rightarrow>
             \<lparr>sent = Some (res_json 200 [(''message'', JStr ''File deleted successfully'')]),
              s3_calls = [params],
              console = [[ress]]\<rparr>
         | S3Error error \<Rightarrow>
             \<lparr>sent = Some (res_json 500 [(''error'', JStr ''Failed to delete file from S3'')]),
              s3_calls = [params],
              console = [[JStr ''Error deleting file:'', error]]\<rparr>)"

section \<open>POST /upload\<close>

text \<open>\<open>req.file\<close> after a stored upload: the file and the \<open>key\<close> it was stored under.\<close>

record s3_file = multer_file +
  key :: string

text \<open>
  The completion callback of the route: \<open>error\<close> is the middleware's error argument,
  \<open>req_file\<close> is \<open>req.file\<close> (\<open>None\<close> for \<open>undefined\<close>).
\<close>

definition upload_callback :: "env \<Rightarrow> jsval \<Rightarrow> s3_file option \<Rightarrow> response" where
  "upload_callback env error req_file =
     (if ToBoolean error then res_json 200 [(''error'', error)]
      else case req_file of
             None \<Rightarrow> res_json 200 [(''error'', JStr ''No File Selected'')]
           | Some rf \<Rightarrow>
               res_json 200
                 [(''response'', JStr ''Image Uploaded Successfully!''),
                  (''fileUrl'',
                   JStr (String_env (env ''AWS_BUCKET_PATH'') @ ''/'' @ key rf))])"

text \<open>The configured limit, \<open>limits: { fileSize: 11000000 }\<close>.\<close>

definition fileSize_limit :: nat where
  "fileSize_limit = 11000000"

text \<open>
  Modelled from the spec: the size-limit stage rejects a file "exceeding a fixed maximum
  size". The stage itself is the multer library's and is not part of the sources; a file
  is over the limit when its size is larger than the configured value.
\<close>

definition exceeds_limit :: "multer_file \<Rightarrow> bool" where
  "exceeds_limit f = (fileSize_limit < file_size f)"

text \<open>
  The error of the library for a file over the limit, a \<open>MulterError\<close> with code
  \<open>LIMIT_FILE_SIZE\<close>. Its \<open>storageErrors\<close> are the errors of the storage engine met while
  removing what had been uploaded.
\<close>

definition limit_error :: "jsval list \<Rightarrow> jsval" where
  "limit_error storageErrors =
     JObj [(''name'', JStr ''MulterError''), (''message'', JStr ''File too large''),
           (''code'', JStr ''LIMIT_FILE_SIZE''), (''field'', JStr ''image''),
           (''storageErrors'', JArr storageErrors)]"

text \<open>
  The middleware \<open>upload\<close>, for a request whose field \<open>image\<close> holds the file \<open>part\<close>
  (or no file). The source configures it: the \<open>fileFilter\<close> is \<open>checkFileType\<close>, the
  limit is \<open>fileSize_limit\<close>, the storage engine writes to the bucket
  \<open>AWS_BUCKET_NAME\<close> with \<open>public-read\<close> access under the key of \<open>storage_key\<close>.
  The library (multer with the multer-s3 storage engine) runs the file filter first; the
  first callback call of the filter decides, and an error ends the request before the
  storage engine is reached. It then hands the stream of the file to the storage engine,
  which computes the key and uploads what the stream delivers. The size limit acts on
  that stream while it is uploaded:
  \<^item> a file within the limit is uploaded whole (\<open>handleFile\<close>), and on success the key is
    left in \<open>req.file.key\<close>;
  \<^item> the stream of a file over the limit is cut at the limit, so the storage engine
    uploads the first \<open>fileSize_limit\<close> bytes (\<open>abortFile\<close>). When that upload succeeds
    the library removes the object again with a delete command for the same key and
    reports the limit error, with the error of the delete in \<open>storageErrors\<close> when the
    delete fails. When that upload fails, the model takes the failure to arrive while the
    stream is still being read: the error of the storage engine is reported and nothing
    is removed.
  The result is what the completion callback receives, the error argument and
  \<open>req.file\<close>, with the storage commands issued in order; \<open>None\<close> when the callback is
  never called.
\<close>

definition handleFile ::
  "env \<Rightarrow> (s3_command \<Rightarrow> s3_result) \<Rightarrow> string \<Rightarrow> string \<Rightarrow> multer_file
     \<Rightarrow> (jsval \<times> s3_file option) option \<times> s3_command list" where
  "handleFile env s3_send r1 r2 f =
     (let k = storage_key f r1 r2;
          put = PutObject (String_env (env ''AWS_BUCKET_NAME'')) k ''public-read'' f
      in case s3_send put of
           S3Ok out \<Rightarrow>
             (Some (JUndefined,
                    Some \<lparr>originalname = originalname f, mimetype = mimetype f,
                          file_size = file_size f, key = k\<rparr>),
              [put])
         | S3Error err \<Rightarrow> (Some (err, None), [put]))"

definition abortFile ::
  "env \<Rightarrow> (s3_command \<Rightarrow> s3_result) \<Rightarrow> string \<Rightarrow> string \<Rightarrow> multer_file
     \<Rightarrow> (jsval \<times> s3_file option) option \<times> s3_command list" where
  "abortFile env s3_send r1 r2 f =
     (let k = storage_key f r1 r2;
          bucket = String_env (env ''AWS_BUCKET_NAME'');
          put = PutObject bucket k ''public-read'' (f\<lparr>file_size := fileSize_limit\<rparr>);
          del = DeleteObject bucket (JStr k)
      in case s3_send put of
           S3Error err \<Rightarrow> (Some (err, None), [put])
         | S3Ok out \<Rightarrow>
             (Some (limit_error (case s3_send del of S3Ok gone \<Rightarrow> [] | S3Error err \<Rightarrow> [err]),
                    None),
              [put, del]))"

definition upload ::
  "env \<Rightarrow> (s3_command \<Rightarrow> s3_result) \<Rightarrow> string \<Rightarrow> string \<Rightarrow> multer_file option
     \<Rightarrow> (jsval \<times> s3_file option) option \<times> s3_command list" where
  "upload env s3_send r1 r2 part =
     (case part of
        None \<Rightarrow> (Some (JUndefined, None), [])
      | Some f \<Rightarrow>
          (case checkFileType f of
             [] \<Rightarrow> (None, [])
           | CbError msg # _ \<Rightarrow> (Some (JStr msg, None), [])
           | CbAccept # _ \<Rightarrow>
               if exceeds_limit f then abortFile env s3_send r1 r2 f
               else handleFile env s3_send r1 r2 f))"

definition post_upload ::
  "env \<Rightarrow> (s3_command \<Rightarrow> s3_result) \<Rightarrow> string \<Rightarrow> string \<Rightarrow> multer_file option \<Rightarrow> outcome" where
  "post_upload env s3_send r1 r2 part =
     (case upload env s3_send r1 r2 part of
        (None, calls) \<Rightarrow> \<lparr>sent = None, s3_calls = calls, console = []\<rparr>
      | (Some (error, req_file), calls) \<Rightarrow>
          \<lparr>sent = Some (upload_callback env error req_file), s3_calls = calls, console = []\<rparr>)"

section \<open>The listen port\<close>

text \<open>
  \<open>Number(process.env.APP_PORT) || 5000\<close>. \<open>Number(undefined)\<close> is NaN; the conversion
  of a string to a number is the language's, the parameter \<open>StringToNumber\<close>.
\<close>

definition Number_env :: "(string \<Rightarrow> jsnum) \<Rightarrow> string option \<Rightarrow> jsnum" where
  "Number_env StringToNumber v = (case v of None \<Rightarrow> NaN | Some s \<Rightarrow> StringToNumber s)"

definition port :: "(string \<Rightarrow> jsnum) \<Rightarrow> env \<Rightarrow> jsnum" where
  "port StringToNumber env =
     (let n = Number_env StringToNumber (env ''APP_PORT'')
      in if ToBoolean_num n then n else Fin 5000)"

section \<open>Example data\<close>

text \<open>
  The data of the examples below: a configuration, a storage service that accepts every
  command, one that cannot be reached and one that refuses to delete, and four files a
  client may send.
\<close>

definition example_env :: env where
  "example_env =
     [''AWS_BUCKET_PATH'' \<mapsto> ''https://cdn.example.com'', ''AWS_BUCKET_NAME'' \<mapsto> ''gallery'']"

definition s3_up :: "s3_command \<Rightarrow> s3_result" where
  "s3_up cmd = S3Ok (JObj [])"

definition s3_down :: "s3_command \<Rightarrow> s3_result" where
  "s3_down cmd = S3Error (JObj [(''name'', JStr ''TimeoutError'')])"

definition s3_no_delete :: "s3_command \<Rightarrow> s3_result" where
  "s3_no_delete cmd =
     (case cmd of
        PutObject bucket k acl f \<Rightarrow> S3Ok (JObj [])
      | DeleteObject bucket k \<Rightarrow> S3Error (JObj [(''name'', JStr ''AccessDenied'')]))"

definition cat_jpg :: multer_file where
  "cat_jpg = \<lparr>originalname = ''cat.jpg'', mimetype = ''image/jpeg'', file_size = 2000000\<rparr>"

definition big_png :: multer_file where
  "big_png = \<lparr>originalname = ''big.png'', mimetype = ''image/png'', file_size = 12000000\<rparr>"

definition notes_txt :: multer_file where
  "notes_txt = \<lparr>originalname = ''notes.txt'', mimetype = ''text/plain'', file_size = 100\<rparr>"

definition payload_gifx :: multer_file where
  "payload_gifx =
     \<lparr>originalname = ''payload.gifx'', mimetype = ''application/x-pngcrush'', file_size = 10\<rparr>"

text \<open>
  A stand-in for the language's conversion of a string to a number, for the examples
  only. It returns what the language returns on the empty string (zero) and on a short
  string of decimal digits (its value); on every other string it answers NaN, while the
  language also reads signs, fractions, exponents and surrounding white space.
\<close>

fun decimal_value :: "nat \<Rightarrow> string \<Rightarrow> nat option" where
  "decimal_value acc [] = Some acc"
| "decimal_value acc (c # cs) =
     (let n = (of_char c :: nat)
      in if 48 \<le> n \<and> n \<le> 57 then decimal_value (10 * acc + (n - 48)) cs else None)"

definition digits_to_number :: "string \<Rightarrow> jsnum" where
  "digits_to_number s = (case decimal_value 0 s of None \<Rightarrow> NaN | Some v \<Rightarrow> Fin (of_nat v))"

section \<open>An invariant of the extension scan\<close>

text \<open>
  Before the iteration at index \<open>n - 1\<close>: an end position lies beyond every index still
  to be scanned and within the path, and a recorded dot is a dot of the path that lies
  before the end position.
\<close>

definition ext_inv :: "string \<Rightarrow> nat \<Rightarrow> ext_state \<Rightarrow> bool" where
  "ext_inv path n st =
     ((case endPos st of None \<Rightarrow> startDot st = None | Some e \<Rightarrow> n < e \<and> e \<le> length path)
      \<and> (case startDot st of
            None \<Rightarrow> True
          | Some d \<Rightarrow> d < length path \<and> path ! d = CHR ''.''
                      \<and> (case endPos st of None \<Rightarrow> False | Some e \<Rightarrow> d < e)))"

section \<open>Facts about the library functions\<close>

lemma substring_2_15_length: "length (substring 2 15 r) \<le> 13"
  by (simp add: substring_def Let_def)

lemma ext_inv_step:
  assumes "ext_inv path (Suc i) st" and "i < length path"
  shows "ext_inv path i (ext_step (path ! i) i st)"
  using assms
  by (auto simp add: ext_inv_def ext_step_def Let_def split: option.splits)

lemma ext_inv_loop:
  "n \<le> length path \<Longrightarrow> ext_inv path n st \<Longrightarrow> ext_inv path 0 (ext_loop path n st)"
proof (induction n arbitrary: st)
  case 0
  then show ?case by simp
next
  case (Suc i)
  have weaken: "ext_inv path i st"
    using Suc.prems(2) by (auto simp add: ext_inv_def split: option.splits)
  show ?case
  proof (cases "path ! i = CHR ''/''")
    case slash: True
    show ?thesis
    proof (cases "matchedSlash st")
      case True
      with slash Suc.IH [of st] Suc.prems(1) weaken show ?thesis by simp
    next
      case False
      have "ext_inv path 0 (st\<lparr>startPart := i + 1\<rparr>)"
        using Suc.prems(2) by (auto simp add: ext_inv_def split: option.splits)
      with False slash show ?thesis by simp
    qed
  next
    case False
    have "ext_inv path i (ext_step (path ! i) i st)"
      using ext_inv_step [OF Suc.prems(2)] Suc.prems(1) by simp
    with False Suc.IH [of "ext_step (path ! i) i st"] Suc.prems(1) show ?thesis by simp
  qed
qed

lemma ext_inv_init: "ext_inv path (length path) ext_init"
  by (simp add: ext_inv_def ext_init_def)

text \<open>An extension is empty or begins with the dot.\<close>

lemma extname_dot: "extname path = [] \<or> (\<exists>ext. extname path = CHR ''.'' # ext)"
proof -
  let ?st = "ext_loop path (length path) ext_init"
  have inv: "ext_inv path 0 ?st"
    using ext_inv_loop [OF le_refl ext_inv_init] .
  show ?thesis
  proof (cases "startDot ?st")
    case None
    then show ?thesis by (simp add: extname_def Let_def)
  next
    case (Some d)
    with inv obtain e where e: "endPos ?st = Some e" "d < e" "d < length path"
      and dot: "path ! d = CHR ''.''"
      by (auto simp add: ext_inv_def split: option.splits)
    from e obtain k where k: "e - d = Suc k"
      by (cases "e - d") auto
    have "drop d path = path ! d # drop (Suc d) path"
      using e(3) by (simp add: Cons_nth_drop_Suc)
    with k dot have "take (e - d) (drop d path) = CHR ''.'' # take k (drop (Suc d) path)"
      by simp
    with Some e show ?thesis by (simp add: extname_def Let_def)
  qed
qed

lemma filetypes_test_Nil: "\<not> filetypes_test []"
  by (simp add: filetypes_test_def)

lemma checkFileType_cases:
  "checkFileType f = [CbAccept] \<or> checkFileType f = [CbError ''Error: Images Only!'']"
  by (simp add: checkFileType_def Let_def)

lemma accepted_ext:
  assumes "checkFileType f = [CbAccept]"
  shows "\<exists>ext. extname (originalname f) = CHR ''.'' # ext"
proof -
  from assms have "filetypes_test (toLowerCase (extname (originalname f)))"
    by (simp add: checkFileType_def Let_def split: if_splits)
  then have "extname (originalname f) \<noteq> []"
    using filetypes_test_Nil by (auto simp add: toLowerCase_def)
  with extname_dot [of "originalname f"] show ?thesis by auto
qed

lemma base36_fragment:
  assumes "base36_fraction r"
  shows "list_all base36_digit (substring 2 15 r)"
proof (cases r rule: base36_fraction.cases)
  case (1 z)
  then show ?thesis by (simp add: substring_def)
next
  case (2 z d ds)
  with assms have "list_all base36_digit ds" by simp
  then have "list_all base36_digit (take 13 ds)"
    by (auto simp add: list_all_iff dest: in_set_takeD)
  moreover have "substring 2 15 r = take 13 ds"
    using 2 by (simp add: substring_def Let_def min_def max_def)
  ultimately show ?thesis by simp
next
  case 3
  with assms show ?thesis by simp
qed

section \<open>The examples, evaluated\<close>

lemma extname_cat: "extname ''cat.jpg'' = ''.jpg''"
  by code_simp

lemma extname_big: "extname ''big.png'' = ''.png''"
  by code_simp

lemma extname_notes: "extname ''notes.txt'' = ''.txt''"
  by code_simp

lemma extname_gifx: "extname ''payload.gifx'' = ''.gifx''"
  by code_simp

lemma test_gifx: "filetypes_test (toLowerCase ''.gifx'')"
  by code_simp

lemma test_pngcrush: "filetypes_test ''application/x-pngcrush''"
  by code_simp

lemma test_jpg: "filetypes_test (toLowerCase ''.jpg'')"
  by code_simp

lemma test_png: "filetypes_test (toLowerCase ''.png'')"
  by code_simp

lemma test_txt: "\<not> filetypes_test (toLowerCase ''.txt'')"
  by code_simp

lemma test_image_jpeg: "filetypes_test ''image/jpeg''"
  by code_simp

lemma test_image_png: "filetypes_test ''image/png''"
  by code_simp

lemma frag_i: "substring 2 15 ''0.i'' = ''i''"
  by code_simp

lemma frag_k9: "substring 2 15 ''0.k9'' = ''k9''"
  by code_simp

lemma frag_ik9: "substring 2 15 ''0.ik9'' = ''ik9''"
  by code_simp

lemma frag_0: "substring 2 15 ''0'' = []"
  by code_simp

lemma check_cat: "checkFileType cat_jpg = [CbAccept]"
  by (simp add: checkFileType_def cat_jpg_def extname_cat test_jpg test_image_jpeg)

lemma check_big: "checkFileType big_png = [CbAccept]"
  by (simp add: checkFileType_def big_png_def extname_big test_png test_image_png)

lemma check_notes: "checkFileType notes_txt = [CbError ''Error: Images Only!'']"
  by (simp add: checkFileType_def notes_txt_def extname_notes test_txt)

lemma check_gifx: "checkFileType payload_gifx = [CbAccept]"
  by (simp add: checkFileType_def payload_gifx_def extname_gifx test_gifx test_pngcrush)

lemma key_gifx: "storage_key payload_gifx ''0.i'' ''0.k9'' = ''saskengallery/ik9.gifx''"
  by (simp add: storage_key_def getRandomFileName_def payload_gifx_def extname_gifx
        frag_i frag_k9)

lemma not_exceeds_gifx: "\<not> exceeds_limit payload_gifx"
  by (simp add: exceeds_limit_def fileSize_limit_def payload_gifx_def)

lemma name_cat: "originalname cat_jpg = ''cat.jpg''"
  by (simp add: cat_jpg_def)

lemma key_cat_i_k9: "storage_key cat_jpg ''0.i'' ''0.k9'' = ''saskengallery/ik9.jpg''"
  by (simp add: storage_key_def getRandomFileName_def name_cat extname_cat frag_i frag_k9)

lemma key_cat_ik9_0: "storage_key cat_jpg ''0.ik9'' ''0'' = ''saskengallery/ik9.jpg''"
  by (simp add: storage_key_def getRandomFileName_def name_cat extname_cat frag_ik9 frag_0)

lemma key_cat_i_i: "storage_key cat_jpg ''0.i'' ''0.i'' = ''saskengallery/ii.jpg''"
  by (simp add: storage_key_def getRandomFileName_def name_cat extname_cat frag_i)

lemma not_exceeds_cat: "\<not> exceeds_limit cat_jpg"
  by (simp add: exceeds_limit_def fileSize_limit_def cat_jpg_def)

lemma size_big: "file_size big_png = 12000000"
  by (simp add: big_png_def)

lemma exceeds_big: "exceeds_limit big_png"
  by (simp add: exceeds_limit_def fileSize_limit_def big_png_def)

lemma key_big: "storage_key big_png ''0.i'' ''0.k9'' = ''saskengallery/ik9.png''"
  by (simp add: storage_key_def getRandomFileName_def big_png_def extname_big frag_i frag_k9)

lemma env_path: "String_env (example_env ''AWS_BUCKET_PATH'') = ''https://cdn.example.com''"
  by (simp add: example_env_def String_env_def)

lemma env_name: "String_env (example_env ''AWS_BUCKET_NAME'') = ''gallery''"
  by (simp add: example_env_def String_env_def)

lemma post_cat_i_k9:
  "sent (post_upload example_env s3_up ''0.i'' ''0.k9'' (Some cat_jpg)) =
     Some \<lparr>status = 200,
           body = JObj [(''response'', JStr ''Image Uploaded Successfully!''),
                        (''fileUrl'', JStr ''https://cdn.example.com/saskengallery/ik9.jpg'')]\<rparr>"
  by (simp add: post_upload_def upload_def check_cat not_exceeds_cat handleFile_def
        key_cat_i_k9 s3_up_def upload_callback_def res_json_def env_path Let_def)

lemma post_cat_i_i:
  "sent (post_upload example_env s3_up ''0.i'' ''0.i'' (Some cat_jpg)) =
     Some \<lparr>status = 200,
           body = JObj [(''response'', JStr ''Image Uploaded Successfully!''),
                        (''fileUrl'', JStr ''https://cdn.example.com/saskengallery/ii.jpg'')]\<rparr>"
  by (simp add: post_upload_def upload_def check_cat not_exceeds_cat handleFile_def
        key_cat_i_i s3_up_def upload_callback_def res_json_def env_path Let_def)

lemma upload_notes:
  "upload example_env s3_up ''0.i'' ''0.k9'' (Some notes_txt) =
     (Some (JStr ''Error: Images Only!'', None), [])"
  by (simp add: upload_def check_notes)

section \<open>The upload pipeline\<close>

lemma upload_accept:
  assumes "checkFileType f = [CbAccept]" and "\<not> exceeds_limit f"
  shows "upload env s3_send r1 r2 (Some f) = handleFile env s3_send r1 r2 f"
  using assms by (simp add: upload_def)

text \<open>A file that the filter rejects causes no storage command.\<close>

lemma filter_reject_no_write:
  assumes "checkFileType f = [CbError msg]"
  shows "s3_calls (post_upload env s3_send r1 r2 (Some f)) = []"
  using assms by (simp add: post_upload_def upload_def)

section \<open>The claims\<close>

subsection \<open>The file filter\<close>

text \<open>
  Claim C1. Every file that the filter accepts has an extension that is one of jpg, jpeg,
  png, gif and a declared MIME type of an image of that set. The filter does not ensure
  it: the pattern is searched anywhere in the extension and in the MIME type, so the file
  \<open>payload.gifx\<close> declared as \<open>application/x-pngcrush\<close> is accepted and is sent to the
  bucket.
\<close>

theorem checkFileType_accepts_gifx:
  "extname (originalname payload_gifx) = ''.gifx''
   \<and> mimetype payload_gifx = ''application/x-pngcrush''
   \<and> checkFileType payload_gifx = [CbAccept]
   \<and> s3_calls (post_upload example_env s3_up ''0.i'' ''0.k9'' (Some payload_gifx)) =
       [PutObject ''gallery'' ''saskengallery/ik9.gifx'' ''public-read'' payload_gifx]"
proof -
  have "extname (originalname payload_gifx) = ''.gifx''"
    by (simp add: payload_gifx_def extname_gifx)
  moreover have "mimetype payload_gifx = ''application/x-pngcrush''"
    by (simp add: payload_gifx_def)
  moreover have
    "s3_calls (post_upload example_env s3_up ''0.i'' ''0.k9'' (Some payload_gifx)) =
       [PutObject ''gallery'' ''saskengallery/ik9.gifx'' ''public-read'' payload_gifx]"
    by (simp add: post_upload_def upload_def check_gifx not_exceeds_gifx handleFile_def
          key_gifx s3_up_def env_name Let_def)
  ultimately show ?thesis
    using check_gifx by simp
qed

text \<open>
  Claim C9. For every file, \<open>checkFileType\<close> calls its callback exactly once: as
  \<open>cb(null, true)\<close> when the MIME test and the extension test both pass, and as
  \<open>cb('Error: Images Only!')\<close> otherwise.
\<close>

theorem checkFileType_calls_once:
  "checkFileType f =
     [if filetypes_test (mimetype f)
         \<and> filetypes_test (toLowerCase (extname (originalname f)))
      then CbAccept else CbError ''Error: Images Only!'']
   \<and> length (checkFileType f) = 1"
  by (simp add: checkFileType_def Let_def)

subsection \<open>The upload route\<close>

text \<open>
  Claim C3. When the middleware reports no error and \<open>req.file\<close> is undefined, the
  response is \<open>{ error: "No File Selected" }\<close> with status 200; a request without a file
  is such a request.
\<close>

theorem no_file_selected:
  assumes "\<not> ToBoolean error"
  shows "upload_callback env error None =
           \<lparr>status = 200, body = JObj [(''error'', JStr ''No File Selected'')]\<rparr>
         \<and> sent (post_upload env s3_send r1 r2 None) =
             Some \<lparr>status = 200, body = JObj [(''error'', JStr ''No File Selected'')]\<rparr>"
  using assms by (simp add: upload_callback_def post_upload_def upload_def res_json_def)

theorem no_file_selected_witness:
  "\<not> ToBoolean JUndefined
   \<and> upload_callback example_env JUndefined None =
       \<lparr>status = 200, body = JObj [(''error'', JStr ''No File Selected'')]\<rparr>
   \<and> sent (post_upload example_env s3_up ''0.i'' ''0.k9'' None) =
       Some \<lparr>status = 200, body = JObj [(''error'', JStr ''No File Selected'')]\<rparr>"
proof -
  have h: "\<not> ToBoolean JUndefined" by simp
  from h no_file_selected [OF h, of example_env s3_up "''0.i''" "''0.k9''"]
  show ?thesis by blast
qed

text \<open>
  Claim C5. When the middleware reports an error, the response body is the object whose
  \<open>error\<close> field is that error value, unchanged.
\<close>

theorem upload_error_passthrough:
  assumes "ToBoolean error"
    and "upload env s3_send r1 r2 part = (Some (error, req_file), calls)"
  shows "upload_callback env error req_file = \<lparr>status = 200, body = JObj [(''error'', error)]\<rparr>
         \<and> sent (post_upload env s3_send r1 r2 part) =
             Some \<lparr>status = 200, body = JObj [(''error'', error)]\<rparr>"
  using assms by (simp add: upload_callback_def post_upload_def res_json_def)

theorem upload_error_passthrough_witness:
  "ToBoolean (JStr ''Error: Images Only!'')
   \<and> upload example_env s3_up ''0.i'' ''0.k9'' (Some notes_txt) =
       (Some (JStr ''Error: Images Only!'', None), [])
   \<and> sent (post_upload example_env s3_up ''0.i'' ''0.k9'' (Some notes_txt)) =
       Some \<lparr>status = 200, body = JObj [(''error'', JStr ''Error: Images Only!'')]\<rparr>"
proof -
  have h: "ToBoolean (JStr ''Error: Images Only!'')" by simp
  from h upload_notes upload_error_passthrough [OF h upload_notes]
  show ?thesis by blast
qed

text \<open>
  Claim C7, amended. A file larger than 11,000,000 bytes is never reported as uploaded
  and is never sent to the bucket whole: the response is an error body; when the filter
  rejects the file no storage command is issued; when the filter accepts it the storage
  engine uploads the first 11,000,000 bytes under the generated key, and when that upload
  succeeds a delete command for the same key follows and the error is the size-limit
  error, which carries the error of the delete if the delete fails.
\<close>

theorem oversized_cut_then_removed:
  assumes "11000000 < file_size f"
  shows "(\<exists>e. sent (post_upload env s3_send r1 r2 (Some f)) =
                Some \<lparr>status = 200, body = JObj [(''error'', e)]\<rparr>)
         \<and> PutObject bucket k acl f \<notin> set (s3_calls (post_upload env s3_send r1 r2 (Some f)))
         \<and> (checkFileType f \<noteq> [CbAccept] \<longrightarrow>
              s3_calls (post_upload env s3_send r1 r2 (Some f)) = [])
         \<and> (checkFileType f = [CbAccept]
              \<and> s3_send (PutObject (String_env (env ''AWS_BUCKET_NAME''))
                           (storage_key f r1 r2) ''public-read''
                           (f\<lparr>file_size := 11000000\<rparr>)) = S3Ok out \<longrightarrow>
              s3_calls (post_upload env s3_send r1 r2 (Some f)) =
                [PutObject (String_env (env ''AWS_BUCKET_NAME''))
                   (storage_key f r1 r2) ''public-read'' (f\<lparr>file_size := 11000000\<rparr>),
                 DeleteObject (String_env (env ''AWS_BUCKET_NAME''))
                   (JStr (storage_key f r1 r2))]
              \<and> sent (post_upload env s3_send r1 r2 (Some f)) =
                  Some \<lparr>status = 200,
                        body = JObj [(''error'',
                          limit_error
                            (case s3_send (DeleteObject (String_env (env ''AWS_BUCKET_NAME''))
                                             (JStr (storage_key f r1 r2))) of
                               S3Ok gone \<Rightarrow> [] | S3Error err \<Rightarrow> [err]))]\<rparr>)"
proof -
  have over: "exceeds_limit f"
    using assms by (simp add: exceeds_limit_def fileSize_limit_def)
  have cut: "f\<lparr>file_size := 11000000\<rparr> \<noteq> f"
  proof
    assume "f\<lparr>file_size := 11000000\<rparr> = f"
    then have "file_size (f\<lparr>file_size := 11000000\<rparr>) = file_size f" by simp
    with assms show False by simp
  qed
  show ?thesis
  proof (cases "checkFileType f = [CbAccept]")
    case True
    then have run: "upload env s3_send r1 r2 (Some f) = abortFile env s3_send r1 r2 f"
      using over by (simp add: upload_def)
    show ?thesis
    proof (cases "s3_send (PutObject (String_env (env ''AWS_BUCKET_NAME''))
                     (storage_key f r1 r2) ''public-read'' (f\<lparr>file_size := 11000000\<rparr>))")
      case (S3Ok ok)
      with True cut show ?thesis
        by (simp add: post_upload_def run abortFile_def Let_def fileSize_limit_def
              upload_callback_def res_json_def limit_error_def)
    next
      case (S3Error err)
      with True cut show ?thesis
        by (simp add: post_upload_def run abortFile_def Let_def fileSize_limit_def
              upload_callback_def res_json_def)
    qed
  next
    case False
    with checkFileType_cases [of f]
    have rej: "checkFileType f = [CbError ''Error: Images Only!'']" by simp
    show ?thesis
      using False
      by (simp add: post_upload_def upload_def rej upload_callback_def res_json_def)
  qed
qed

theorem oversized_cut_then_removed_witness:
  "(11000000 :: nat) < file_size big_png
   \<and> checkFileType big_png = [CbAccept]
   \<and> s3_up (PutObject ''gallery'' ''saskengallery/ik9.png'' ''public-read''
              (big_png\<lparr>file_size := 11000000\<rparr>)) = S3Ok (JObj [])
   \<and> s3_calls (post_upload example_env s3_up ''0.i'' ''0.k9'' (Some big_png)) =
       [PutObject ''gallery'' ''saskengallery/ik9.png'' ''public-read''
          (big_png\<lparr>file_size := 11000000\<rparr>),
        DeleteObject ''gallery'' (JStr ''saskengallery/ik9.png'')]
   \<and> sent (post_upload example_env s3_up ''0.i'' ''0.k9'' (Some big_png)) =
       Some \<lparr>status = 200, body = JObj [(''error'', limit_error [])]\<rparr>"
proof -
  have h: "(11000000 :: nat) < file_size big_png" by (simp add: size_big)
  from h check_big
    oversized_cut_then_removed
      [OF h, of example_env s3_up "''0.i''" "''0.k9''" _ _ _ "JObj []"]
  show ?thesis by (simp add: env_name key_big s3_up_def)
qed

text \<open>
  The claim as it stands says that the file over the limit is never stored in the bucket.
  With a storage service that accepts uploads and refuses deletes, the upload of the 12 MB
  file \<open>big.png\<close> sends its first 11,000,000 bytes to the bucket under
  \<open>saskengallery/ik9.png\<close>, and the delete that should remove them fails: the object
  stays.
\<close>

theorem oversized_counterexample:
  "file_size big_png = 12000000
   \<and> s3_calls (post_upload example_env s3_no_delete ''0.i'' ''0.k9'' (Some big_png)) =
       [PutObject ''gallery'' ''saskengallery/ik9.png'' ''public-read''
          (big_png\<lparr>file_size := 11000000\<rparr>),
        DeleteObject ''gallery'' (JStr ''saskengallery/ik9.png'')]
   \<and> s3_no_delete (PutObject ''gallery'' ''saskengallery/ik9.png'' ''public-read''
                     (big_png\<lparr>file_size := 11000000\<rparr>)) = S3Ok (JObj [])
   \<and> s3_no_delete (DeleteObject ''gallery'' (JStr ''saskengallery/ik9.png'')) =
       S3Error (JObj [(''name'', JStr ''AccessDenied'')])
   \<and> sent (post_upload example_env s3_no_delete ''0.i'' ''0.k9'' (Some big_png)) =
       Some \<lparr>status = 200,
             body = JObj [(''error'',
                           limit_error [JObj [(''name'', JStr ''AccessDenied'')]])]\<rparr>"
  by (simp add: size_big post_upload_def upload_def check_big exceeds_big abortFile_def
        key_big env_name s3_no_delete_def fileSize_limit_def Let_def upload_callback_def
        res_json_def limit_error_def)

subsection \<open>The delete route\<close>

text \<open>
  Claim C4. The delete handler answers 200 with \<open>{ message: "File deleted successfully" }\<close>
  when the storage call succeeds and 500 with \<open>{ error: "Failed to delete file from S3" }\<close>
  when it fails, whatever the error; it sends one storage command, so there is no retry.
\<close>

theorem delete_response:
  "sent (delete_handler env s3_send req_body) =
     (case s3_send (DeleteObject (String_env (env ''AWS_BUCKET_NAME''))
                      (get_prop req_body ''key'')) of
        S3Ok ress \<Rightarrow>
          Some \<lparr>status = 200, body = JObj [(''message'', JStr ''File deleted successfully'')]\<rparr>
      | S3Error error \<Rightarrow>
          Some \<lparr>status = 500,
                body = JObj [(''error'', JStr ''Failed to delete file from S3'')]\<rparr>)
   \<and> length (s3_calls (delete_handler env s3_send req_body)) = 1"
  by (simp add: delete_handler_def res_json_def Let_def split: s3_result.split)

text \<open>
  Claim C6. The delete handler passes the \<open>key\<close> of the request body, unchanged and
  unchecked, as the \<open>Key\<close> of the delete command against the configured bucket: a missing
  key goes out as \<open>undefined\<close>, an empty key as the empty string.
\<close>

theorem delete_key_unchecked:
  "s3_calls (delete_handler env s3_send req_body) =
     [DeleteObject (String_env (env ''AWS_BUCKET_NAME'')) (get_prop req_body ''key'')]
   \<and> s3_calls (delete_handler env s3_send []) =
       [DeleteObject (String_env (env ''AWS_BUCKET_NAME'')) JUndefined]
   \<and> s3_calls (delete_handler env s3_send [(''key'', JStr [])]) =
       [DeleteObject (String_env (env ''AWS_BUCKET_NAME'')) (JStr [])]"
  by (simp add: delete_handler_def get_prop_def Let_def split: s3_result.split)

subsection \<open>The listen port\<close>

text \<open>
  Claim C10. The port is 5000 when \<open>APP_PORT\<close> is not set, and also when it is set to a
  string whose conversion is NaN or zero; otherwise it is the converted number.
\<close>

theorem port_fallback:
  "port StringToNumber env =
     (case env ''APP_PORT'' of
        None \<Rightarrow> Fin 5000
      | Some s \<Rightarrow>
          if StringToNumber s = NaN \<or> StringToNumber s = Fin 0 \<or> StringToNumber s = NegZero
          then Fin 5000 else StringToNumber s)"
proof (cases "env ''APP_PORT''")
  case None
  then show ?thesis by (simp add: port_def Number_env_def)
next
  case (Some s)
  then show ?thesis
    by (cases "StringToNumber s") (simp_all add: port_def Number_env_def Let_def)
qed

theorem port_fallback_witness:
  "port digits_to_number [''APP_PORT'' \<mapsto> ''abc''] = Fin 5000
   \<and> port digits_to_number [''APP_PORT'' \<mapsto> ''''] = Fin 5000
   \<and> port digits_to_number [''APP_PORT'' \<mapsto> ''0''] = Fin 5000
   \<and> port digits_to_number [''APP_PORT'' \<mapsto> ''3000''] = Fin 3000
   \<and> port digits_to_number Map.empty = Fin 5000"
  using port_fallback [of digits_to_number "[''APP_PORT'' \<mapsto> ''abc'']"]
    port_fallback [of digits_to_number "[''APP_PORT'' \<mapsto> '''']"]
    port_fallback [of digits_to_number "[''APP_PORT'' \<mapsto> ''0'']"]
    port_fallback [of digits_to_number "[''APP_PORT'' \<mapsto> ''3000'']"]
    port_fallback [of digits_to_number "Map.empty"]
  by (simp add: digits_to_number_def)

subsection \<open>The storage key and the file URL\<close>

text \<open>
  Claim C2, amended. For every successful upload, the returned \<open>fileUrl\<close> is the
  \<open>AWS_BUCKET_PATH\<close> value, a slash and the storage key; the key is \<open>saskengallery/\<close>,
  a random token, a dot and the extension of the original name in its original case; the
  token has at most 26 characters, 13 from each draw, and no least length. The file is
  sent to the bucket under that key.
\<close>

theorem fileUrl_form:
  assumes "sent (post_upload env s3_send r1 r2 (Some f)) =
             Some \<lparr>status = 200,
                   body = JObj [(''response'', JStr ''Image Uploaded Successfully!''),
                                (''fileUrl'', JStr url)]\<rparr>"
  shows "\<exists>ext. extname (originalname f) = CHR ''.'' # ext
           \<and> url = String_env (env ''AWS_BUCKET_PATH'') @ ''/'' @ storage_key f r1 r2
           \<and> storage_key f r1 r2 =
               ''saskengallery/'' @ (substring 2 15 r1 @ substring 2 15 r2) @ ''.'' @ ext
           \<and> length (substring 2 15 r1 @ substring 2 15 r2) \<le> 26
           \<and> s3_calls (post_upload env s3_send r1 r2 (Some f)) =
               [PutObject (String_env (env ''AWS_BUCKET_NAME'')) (storage_key f r1 r2)
                  ''public-read'' f]"
proof -
  have acc: "checkFileType f = [CbAccept]"
  proof (rule ccontr)
    assume "checkFileType f \<noteq> [CbAccept]"
    with checkFileType_cases [of f]
    have "checkFileType f = [CbError ''Error: Images Only!'']" by simp
    with assms show False
      by (simp add: post_upload_def upload_def upload_callback_def res_json_def)
  qed
  have lim: "\<not> exceeds_limit f"
  proof
    assume "exceeds_limit f"
    with acc assms show False
      by (simp add: post_upload_def upload_def abortFile_def Let_def upload_callback_def
            res_json_def limit_error_def split: s3_result.splits if_splits)
  qed
  obtain ext where ext: "extname (originalname f) = CHR ''.'' # ext"
    using accepted_ext [OF acc] by blast
  have len: "length (substring 2 15 r1 @ substring 2 15 r2) \<le> 26"
    using substring_2_15_length [of r1] substring_2_15_length [of r2] by simp
  have key: "storage_key f r1 r2 =
               ''saskengallery/'' @ (substring 2 15 r1 @ substring 2 15 r2) @ ''.'' @ ext"
    using ext by (simp add: storage_key_def getRandomFileName_def)
  let ?put = "PutObject (String_env (env ''AWS_BUCKET_NAME'')) (storage_key f r1 r2)
                ''public-read'' f"
  have run: "upload env s3_send r1 r2 (Some f) = handleFile env s3_send r1 r2 f"
    using upload_accept [OF acc lim] .
  have rest: "url = String_env (env ''AWS_BUCKET_PATH'') @ ''/'' @ storage_key f r1 r2
              \<and> s3_calls (post_upload env s3_send r1 r2 (Some f)) = [?put]"
  proof (cases "s3_send ?put")
    case (S3Ok out)
    with assms show ?thesis
      by (simp add: post_upload_def run handleFile_def Let_def upload_callback_def
            res_json_def)
  next
    case (S3Error err)
    with assms show ?thesis
      by (simp add: post_upload_def run handleFile_def Let_def upload_callback_def
            res_json_def split: if_splits)
  qed
  from ext key len rest show ?thesis by blast
qed

theorem fileUrl_form_witness:
  "sent (post_upload example_env s3_up ''0.i'' ''0.k9'' (Some cat_jpg)) =
     Some \<lparr>status = 200,
           body = JObj [(''response'', JStr ''Image Uploaded Successfully!''),
                        (''fileUrl'', JStr ''https://cdn.example.com/saskengallery/ik9.jpg'')]\<rparr>
   \<and> ''https://cdn.example.com/saskengallery/ik9.jpg'' =
       String_env (example_env ''AWS_BUCKET_PATH'') @ ''/'' @ storage_key cat_jpg ''0.i'' ''0.k9''
   \<and> length (substring 2 15 ''0.i'' @ substring 2 15 ''0.k9'') \<le> 26
   \<and> s3_calls (post_upload example_env s3_up ''0.i'' ''0.k9'' (Some cat_jpg)) =
       [PutObject (String_env (example_env ''AWS_BUCKET_NAME''))
          (storage_key cat_jpg ''0.i'' ''0.k9'') ''public-read'' cat_jpg]"
  using post_cat_i_k9 fileUrl_form [OF post_cat_i_k9] by blast

text \<open>
  The claim as it stands asks for a token of 20 to 34 characters. When both draws are
  one half, which base 36 writes \<open>0.i\<close>, the upload succeeds with the key
  \<open>saskengallery/ii.jpg\<close>, whose token \<open>ii\<close> has two characters.
\<close>

theorem token_length_counterexample:
  "sent (post_upload example_env s3_up ''0.i'' ''0.i'' (Some cat_jpg)) =
     Some \<lparr>status = 200,
           body = JObj [(''response'', JStr ''Image Uploaded Successfully!''),
                        (''fileUrl'', JStr ''https://cdn.example.com/saskengallery/ii.jpg'')]\<rparr>
   \<and> storage_key cat_jpg ''0.i'' ''0.i'' = ''saskengallery/'' @ ''ii'' @ ''.jpg''
   \<and> \<not> (20 \<le> length ''ii'' \<and> length ''ii'' \<le> 34)"
  by (simp add: post_cat_i_i key_cat_i_i)

text \<open>
  Claim C8, amended. The key of an upload is \<open>saskengallery/\<close>, the token and the
  extension, where the token joins two fragments, one from each draw, of at most 13
  digits of base 36 each, with no least length. Two uploads of the same file get distinct
  keys exactly when their tokens differ; nothing but the draws keeps the tokens apart.
\<close>

theorem token_structure:
  assumes "base36_fraction r1" and "base36_fraction r2"
  shows "storage_key f r1 r2 =
           ''saskengallery/'' @ (substring 2 15 r1 @ substring 2 15 r2)
             @ extname (originalname f)
         \<and> length (substring 2 15 r1) \<le> 13 \<and> length (substring 2 15 r2) \<le> 13
         \<and> list_all base36_digit (substring 2 15 r1 @ substring 2 15 r2)
         \<and> (storage_key f r1 r2 = storage_key f r1' r2'
              \<longleftrightarrow> substring 2 15 r1 @ substring 2 15 r2
                    = substring 2 15 r1' @ substring 2 15 r2')"
proof -
  have "list_all base36_digit (substring 2 15 r1 @ substring 2 15 r2)"
    using base36_fragment [OF assms(1)] base36_fragment [OF assms(2)] by simp
  moreover have "storage_key f r1 r2 = storage_key f r1' r2'
      \<longleftrightarrow> substring 2 15 r1 @ substring 2 15 r2 = substring 2 15 r1' @ substring 2 15 r2'"
  proof -
    have "storage_key f r1 r2 = storage_key f r1' r2'
        \<longleftrightarrow> (substring 2 15 r1 @ substring 2 15 r2) @ extname (originalname f)
              = (substring 2 15 r1' @ substring 2 15 r2') @ extname (originalname f)"
      by (simp add: storage_key_def getRandomFileName_def)
    then show ?thesis by (simp only: append_same_eq)
  qed
  ultimately show ?thesis
    using substring_2_15_length [of r1] substring_2_15_length [of r2]
    by (simp add: storage_key_def getRandomFileName_def)
qed

theorem token_structure_witness:
  "base36_fraction ''0.i'' \<and> base36_fraction ''0.k9''
   \<and> storage_key cat_jpg ''0.i'' ''0.k9'' =
       ''saskengallery/'' @ (substring 2 15 ''0.i'' @ substring 2 15 ''0.k9'')
         @ extname (originalname cat_jpg)
   \<and> list_all base36_digit (substring 2 15 ''0.i'' @ substring 2 15 ''0.k9'')
   \<and> (storage_key cat_jpg ''0.i'' ''0.k9'' = storage_key cat_jpg ''0.ik9'' ''0''
        \<longleftrightarrow> substring 2 15 ''0.i'' @ substring 2 15 ''0.k9''
              = substring 2 15 ''0.ik9'' @ substring 2 15 ''0'')"
proof -
  have h1: "base36_fraction ''0.i''" by code_simp
  have h2: "base36_fraction ''0.k9''" by code_simp
  from h1 h2 token_structure [OF h1 h2, of cat_jpg "''0.ik9''" "''0''"]
  show ?thesis by blast
qed

text \<open>
  The claim as it stands says that any two uploads get distinct keys and that the token
  has at least 20 characters. An upload of \<open>cat.jpg\<close> with the draws written \<open>0.i\<close> and
  \<open>0.k9\<close> (one half and nine sixteenths) and another with the draws written \<open>0.ik9\<close> and
  \<open>0\<close> (thirty-three sixty-fourths and zero) both get the key \<open>saskengallery/ik9.jpg\<close>,
  whose token has three characters.
\<close>

theorem key_collision_counterexample:
  "storage_key cat_jpg ''0.i'' ''0.k9'' = ''saskengallery/ik9.jpg''
   \<and> storage_key cat_jpg ''0.ik9'' ''0'' = ''saskengallery/ik9.jpg''
   \<and> (''0.i'', ''0.k9'') \<noteq> (''0.ik9'', ''0'')
   \<and> length ''ik9'' < 20"
  by (simp add: key_cat_i_k9 key_cat_ik9_0)

end
